theory Spec2Isabelle
  imports Complex_Main
begin

section \<open>Client data model (client/src/App.tsx)\<close>

text \<open>
  The React component \<^verbatim>\<open>App\<close> is embedded as a record of its state variables and one
  HOL function per handler, effect and timer callback. JavaScript numbers that only ever
  hold integers (score, counters, timer handles) are \<^typ>\<open>int\<close> or \<^typ>\<open>nat\<close>;
  \<^verbatim>\<open>Math.random()\<close> draws and the values computed from them are \<^typ>\<open>real\<close>, and each
  draw is a parameter of the function that makes it; the rounding of doubles is not
  modelled. State updates of one handler are applied in source order on one state value
  (a handler runs to completion before the next event is processed); a log line written
  inside a state updater is appended when React runs the updater, after the lines the
  handler writes itself. A handler that reads a state variable reads the value of the
  render its closure belongs to; where that render can be older than the state the
  updates apply to, the render is a parameter of its own.
\<close>

datatype ComponentType = Build | Test | Deploy

record ComponentState =
  placed :: bool

record ComponentStates =
  build :: ComponentState
  test :: ComponentState
  deploy :: ComponentState

record GameStats =
  score :: int
  deployments :: int
  sabotages :: int
  timeSpent :: int
  failedDeployments :: int
  streak :: int

text \<open>\<^verbatim>\<open>states[c]\<close> and \<^verbatim>\<open>{...states, [c]: v}\<close>.\<close>

fun getComponent :: "ComponentStates \<Rightarrow> ComponentType \<Rightarrow> ComponentState" where
  "getComponent cs Build = build cs"
| "getComponent cs Test = test cs"
| "getComponent cs Deploy = deploy cs"

fun setComponent :: "ComponentStates \<Rightarrow> ComponentType \<Rightarrow> ComponentState \<Rightarrow> ComponentStates" where
  "setComponent cs Build v = cs\<lparr>build := v\<rparr>"
| "setComponent cs Test v = cs\<lparr>test := v\<rparr>"
| "setComponent cs Deploy v = cs\<lparr>deploy := v\<rparr>"

text \<open>\<^verbatim>\<open>Object.values\<close> and \<^verbatim>\<open>Object.entries\<close> enumerate the keys in insertion order.\<close>

definition objectValues :: "ComponentStates \<Rightarrow> ComponentState list" where
  "objectValues cs = [build cs, test cs, deploy cs]"

definition objectEntries :: "ComponentStates \<Rightarrow> (ComponentType \<times> ComponentState) list" where
  "objectEntries cs = [(Build, build cs), (Test, test cs), (Deploy, deploy cs)]"

definition placedCount :: "ComponentStates \<Rightarrow> nat" where
  "placedCount cs = length (filter placed (objectValues cs))"

definition currentPlacedComponents :: "ComponentStates \<Rightarrow> ComponentType list" where
  "currentPlacedComponents cs = map fst (filter (\<lambda>e. placed (snd e)) (objectEntries cs))"

definition allPlaced :: "ComponentStates \<Rightarrow> bool" where
  "allPlaced cs = list_all placed (objectValues cs)"

definition noComponents :: ComponentStates where
  "noComponents = \<lparr>build = \<lparr>placed = False\<rparr>, test = \<lparr>placed = False\<rparr>, deploy = \<lparr>placed = False\<rparr>\<rparr>"

text \<open>
  A log line is the template of its \<^verbatim>\<open>addLog\<close> call with the interpolated values; the
  wall-clock prefix \<^verbatim>\<open>[timestamp]\<close> and the emoji are not part of the model.
\<close>

datatype LogMessage =
    LogLoaded
  | LogUnstable ComponentType
  | LogKnockedOff ComponentType
  | LogMultipleTargets
  | LogRampage
  | LogMovingTo ComponentType
  | LogAggression int
  | LogAttackIn int
  | LogConnected
  | LogDisconnected
  | LogPong
  | LogServer string
  | LogDeploymentSuccessful int
  | LogResetForNext
  | LogDeploymentFailed
  | LogResetTryAgain
  | LogPickedUp ComponentType
  | LogTimerStarted
  | LogPlaced ComponentType
  | LogWrongSlot ComponentType
  | LogAllMustBePlaced
  | LogAlreadyInProgress
  | LogStartingDeployment int
  | LogComponentsReset
  | LogNoFixNeeded
  | LogNeedPoints int int
  | LogFixApplied int nat

datatype DebugEvent =
    DbgConnecting
  | DbgConnected
  | DbgDisconnected
  | DbgPong
  | DbgDeploymentLog
  | DbgDeploymentComplete bool
  | DbgStartingDeployment bool real
  | DbgCancelling "ComponentType set"

datatype CatAnimation = Idle | Moving | Prowling

datatype Socket = SocketConnection

text \<open>The payload of the \<^verbatim>\<open>deploymentStart\<close> message (its timestamp is wall-clock).\<close>

datatype ClientEmit = DeploymentStart (forceFailure: bool) (failureChance: real)

text \<open>
  A pending \<^verbatim>\<open>setTimeout\<close> callback. The closures of the two attack-scheduling effects
  carry the values of the render that created them: the slot map, the session flag and
  (through \<^verbatim>\<open>performCatSabotage\<close>) the aggression level.
\<close>

datatype Callback =
    WarnStart ComponentType
  | ResolveWarning ComponentType
  | CatIdle
  | ResetAfterSuccess
  | ResetAfterFailure
  | FirstAttack ComponentStates bool int
  | NextSabotage ComponentStates bool int
  | RetrySchedule ComponentStates bool int

record Timer =
  tid :: nat
  delay :: real
  callback :: Callback

record App =
  gameStats :: GameStats
  componentStates :: ComponentStates
  logs :: "LogMessage list"
  socket :: "Socket option"
  isConnected :: bool
  catAnimation :: CatAnimation
  forceUpdate :: nat
  catAggression :: int
  shakingComponents :: "ComponentType set"
  pendingAttacks :: "ComponentType set"
  isDeploymentInProgress :: bool
  socketEvents :: "DebugEvent list"
  sabotageTimeoutId :: "nat option"
  timeouts :: "Timer list"
  nextTimeoutId :: nat
  emitted :: "ClientEmit list"
  cleanupTimeoutId :: "nat option"

text \<open>
  The last four fields are the environment the component acts on: the browser's table of
  pending timeouts with the next free handle, the messages handed to \<^verbatim>\<open>socket.emit\<close>,
  and the handle captured by the cleanup closure of the "controlled cat AI" effect. The
  display-only state (\<^verbatim>\<open>nextAttackTime\<close>, \<^verbatim>\<open>timeUntilAttack\<close>, \<^verbatim>\<open>debugMode\<close>,
  \<^verbatim>\<open>gameStartTime\<close>) is left out.
\<close>

definition initialGameStats :: GameStats where
  "initialGameStats = \<lparr>score = 0, deployments = 0, sabotages = 0, timeSpent = 0,
     failedDeployments = 0, streak = 0\<rparr>"

definition initialApp :: App where
  "initialApp = \<lparr>gameStats = initialGameStats, componentStates = noComponents,
     logs = [LogLoaded], socket = None, isConnected = False, catAnimation = Idle,
     forceUpdate = 0, catAggression = 1, shakingComponents = {}, pendingAttacks = {},
     isDeploymentInProgress = False, socketEvents = [], sabotageTimeoutId = None,
     timeouts = [], nextTimeoutId = 1, emitted = [], cleanupTimeoutId = None\<rparr>"

definition addLog :: "LogMessage \<Rightarrow> App \<Rightarrow> App" where
  "addLog m s = s\<lparr>logs := logs s @ [m]\<rparr>"

definition addDebugLog :: "DebugEvent \<Rightarrow> App \<Rightarrow> App" where
  "addDebugLog e s = s\<lparr>socketEvents := socketEvents s @ [e]\<rparr>"

text \<open>\<^verbatim>\<open>window.setTimeout\<close> returns a fresh handle; \<^verbatim>\<open>clearTimeout\<close> drops the entry.\<close>

definition setTimeout :: "Callback \<Rightarrow> real \<Rightarrow> App \<Rightarrow> nat \<times> App" where
  "setTimeout cb d s =
     (nextTimeoutId s,
      s\<lparr>timeouts := timeouts s @ [\<lparr>tid = nextTimeoutId s, delay = d, callback = cb\<rparr>],
        nextTimeoutId := nextTimeoutId s + 1\<rparr>)"

definition clearTimeout :: "nat \<Rightarrow> App \<Rightarrow> App" where
  "clearTimeout i s = s\<lparr>timeouts := filter (\<lambda>t. tid t \<noteq> i) (timeouts s)\<rparr>"

text \<open>JavaScript truthiness of a \<^verbatim>\<open>number | null\<close>.\<close>

fun truthy :: "nat option \<Rightarrow> bool" where
  "truthy None = False"
| "truthy (Some n) = (n \<noteq> 0)"

text \<open>\<^verbatim>\<open>Math.round\<close>.\<close>

definition mathRound :: "real \<Rightarrow> int" where
  "mathRound x = \<lfloor>x + 1 / 2\<rfloor>"

subsection \<open>The warning system\<close>

definition startComponentWarning :: "ComponentType \<Rightarrow> App \<Rightarrow> App" where
  "startComponentWarning targetComponent s =
     (let s1 = s\<lparr>shakingComponents := insert targetComponent (shakingComponents s)\<rparr>;
          s2 = s1\<lparr>pendingAttacks := insert targetComponent (pendingAttacks s1)\<rparr>;
          s3 = addLog (LogUnstable targetComponent) s2
      in snd (setTimeout (ResolveWarning targetComponent) 5000 s3))"

text \<open>The callback of the 5000 ms timeout set by \<^verbatim>\<open>startComponentWarning\<close>.\<close>

definition resolveWarning :: "ComponentType \<Rightarrow> App \<Rightarrow> App" where
  "resolveWarning targetComponent s =
     (let s1 = (if targetComponent \<in> pendingAttacks s
                then (if placed (getComponent (componentStates s) targetComponent)
                      then addLog (LogKnockedOff targetComponent)
                             (s\<lparr>componentStates :=
                                  setComponent (componentStates s) targetComponent \<lparr>placed = False\<rparr>\<rparr>)
                      else s)
                else s);
          s2 = s1\<lparr>pendingAttacks := pendingAttacks s1 - {targetComponent}\<rparr>
      in s2\<lparr>shakingComponents := shakingComponents s2 - {targetComponent}\<rparr>)"

subsection \<open>performCatSabotage\<close>

text \<open>
  The if-chain that assigns \<^verbatim>\<open>componentsToSabotage\<close>, in the order of the source: the
  two-target test comes first, the rampage test second.
\<close>

definition componentsToSabotage :: "int \<Rightarrow> real \<Rightarrow> nat \<Rightarrow> nat" where
  "componentsToSabotage aggression aggressionRoll n =
     (if aggression \<ge> 3 \<and> aggressionRoll < 0.2 \<and> n \<ge> 2 then 2
      else if aggression \<ge> 5 \<and> aggressionRoll < 0.1 \<and> n \<ge> 3 then 3
      else 1)"

text \<open>
  \<^verbatim>\<open>xs[Math.floor(r * xs.length)]\<close>; outside the array the read is \<^verbatim>\<open>undefined\<close>, and
  the \<^verbatim>\<open>.toUpperCase()\<close> that follows throws (\<open>None\<close>).
\<close>

definition randomElement :: "real \<Rightarrow> 'a list \<Rightarrow> 'a option" where
  "randomElement r xs =
     (let i = \<lfloor>r * real (length xs)\<rfloor>
      in if 0 \<le> i \<and> nat i < length xs then Some (xs ! nat i) else None)"

text \<open>The \<^verbatim>\<open>forEach\<close> that staggers the warnings by \<^verbatim>\<open>index * 1500\<close> ms.\<close>

fun staggerWarnings :: "ComponentType list \<Rightarrow> nat \<Rightarrow> App \<Rightarrow> App" where
  "staggerWarnings [] index s = s"
| "staggerWarnings (target # rest) index s =
     staggerWarnings rest (index + 1) (snd (setTimeout (WarnStart target) (real index * 1500) s))"

text \<open>The part of \<^verbatim>\<open>performCatSabotage\<close> after the if-chain.\<close>

definition sabotageTargets :: "nat \<Rightarrow> ComponentType list \<Rightarrow> ComponentType list \<Rightarrow> App \<Rightarrow> App" where
  "sabotageTargets k placedComponents shuffledComponents s =
     (let targetsToSabotage = take (min k (length placedComponents)) shuffledComponents;
          s1 = staggerWarnings targetsToSabotage 0 s;
          s2 = s1\<lparr>gameStats := (gameStats s1)\<lparr>sabotages :=
                  sabotages (gameStats s1) + int (length targetsToSabotage)\<rparr>\<rparr>;
          s3 = s2\<lparr>forceUpdate := forceUpdate s2 + 1\<rparr>
      in snd (setTimeout CatIdle 6000 s3))"

text \<open>
  \<open>aggression\<close> is the \<^verbatim>\<open>catAggression\<close> of the closure; \<open>aggressionRoll\<close> and
  \<open>pick\<close> are the two \<^verbatim>\<open>Math.random()\<close> draws, \<open>shuffledComponents\<close> the outcome of
  the random sort (a permutation of \<open>placedComponents\<close>). \<open>None\<close> is the TypeError of
  the single-target branch on an empty list.
\<close>

definition performCatSabotage ::
  "int \<Rightarrow> ComponentType list \<Rightarrow> real \<Rightarrow> real \<Rightarrow> ComponentType list \<Rightarrow> App \<Rightarrow> App option" where
  "performCatSabotage aggression placedComponents aggressionRoll pick shuffledComponents s =
     (let s1 = s\<lparr>catAnimation := Moving\<rparr>
      in if aggression \<ge> 3 \<and> aggressionRoll < 0.2 \<and> length placedComponents \<ge> 2
         then Some (sabotageTargets 2 placedComponents shuffledComponents
                      (addLog LogMultipleTargets s1))
         else if aggression \<ge> 5 \<and> aggressionRoll < 0.1 \<and> length placedComponents \<ge> 3
         then Some (sabotageTargets 3 placedComponents shuffledComponents
                      (addLog LogRampage s1))
         else (case randomElement pick placedComponents of
                 None \<Rightarrow> None
               | Some target \<Rightarrow>
                   Some (sabotageTargets 1 placedComponents shuffledComponents
                           (addLog (LogMovingTo target) s1))))"

subsection \<open>Game timer\<close>

text \<open>
  The body of the one-second interval; \<open>elapsed\<close> is
  \<^verbatim>\<open>Math.floor((Date.now() - gameStartTime) / 1000)\<close>.
\<close>

definition gameTimerTick :: "int \<Rightarrow> App \<Rightarrow> App" where
  "gameTimerTick elapsed s =
     (let newAggression = min (elapsed div 60 + 1) 5;
          s1 = (if newAggression \<noteq> catAggression s
                then addLog (LogAggression newAggression) (s\<lparr>catAggression := newAggression\<rparr>)
                else s)
      in s1\<lparr>gameStats := (gameStats s1)\<lparr>timeSpent := elapsed\<rparr>\<rparr>)"

subsection \<open>The two attack-scheduling effects\<close>

text \<open>
  Both effects read the values of the render they belong to (\<open>snap\<close>), not the state as
  it is while they run: a \<^verbatim>\<open>setSabotageTimeoutId\<close> made by the first effect is not seen
  by the second effect of the same commit.
\<close>

definition getIntervalTime :: "int \<Rightarrow> real \<Rightarrow> real" where
  "getIntervalTime aggression randomDraw =
     (let baseTime = 30000;
          aggressionReduction = (real_of_int aggression - 1) * 4000;
          randomVariation = randomDraw * 10000
      in max 15000 (baseTime - aggressionReduction + randomVariation))"

text \<open>"Trigger to restart cat timer when needed" (the effect with \<^verbatim>\<open>scheduleFirstAttack\<close>).\<close>

definition restartCatTimerEffect :: "App \<Rightarrow> real \<Rightarrow> App \<Rightarrow> App" where
  "restartCatTimerEffect snap randomDraw s =
     (if placedCount (componentStates snap) > 0 \<and> \<not> isDeploymentInProgress snap
         \<and> \<not> truthy (sabotageTimeoutId snap)
      then (let nextInterval = getIntervalTime (catAggression snap) randomDraw;
                s1 = addLog (LogAttackIn (mathRound (nextInterval / 1000))) s;
                (timeoutId, s2) =
                  setTimeout (FirstAttack (componentStates snap) (isDeploymentInProgress snap)
                                (catAggression snap)) nextInterval s1
            in s2\<lparr>sabotageTimeoutId := Some timeoutId\<rparr>)
      else s)"

text \<open>
  \<^verbatim>\<open>scheduleNextSabotage\<close> of the "controlled cat AI" effect, with the slot map, session
  flag and aggression of its closure.
\<close>

definition scheduleNextSabotage :: "ComponentStates \<Rightarrow> bool \<Rightarrow> int \<Rightarrow> real \<Rightarrow> App \<Rightarrow> App" where
  "scheduleNextSabotage cs deploying aggression randomDraw s =
     (if placedCount cs = 0 \<or> deploying
      then (let (timeoutId, s1) = setTimeout (RetrySchedule cs deploying aggression) 5000 s
            in s1\<lparr>sabotageTimeoutId := Some timeoutId\<rparr>)
      else (let nextInterval = getIntervalTime aggression randomDraw;
                s1 = addLog (LogAttackIn (mathRound (nextInterval / 1000))) s;
                (timeoutId, s2) = setTimeout (NextSabotage cs deploying aggression) nextInterval s1
            in s2\<lparr>sabotageTimeoutId := Some timeoutId\<rparr>))"

text \<open>
  The body of the "controlled cat AI" effect. Its cleanup closure keeps the handle of the
  render (\<open>cleanupTimeoutId\<close>).
\<close>

definition catAIEffect :: "App \<Rightarrow> real \<Rightarrow> App \<Rightarrow> App" where
  "catAIEffect snap randomDraw s =
     (let s1 = (case sabotageTimeoutId snap of
                  None \<Rightarrow> s
                | Some i \<Rightarrow> if truthy (Some i) then clearTimeout i s else s);
          s2 = (if placedCount (componentStates snap) > 0 \<and> \<not> isDeploymentInProgress snap
                then scheduleNextSabotage (componentStates snap) (isDeploymentInProgress snap)
                       (catAggression snap) randomDraw s1
                else s1)
      in s2\<lparr>cleanupTimeoutId := sabotageTimeoutId snap\<rparr>)"

definition catAICleanup :: "App \<Rightarrow> App" where
  "catAICleanup s =
     (case cleanupTimeoutId s of
        None \<Rightarrow> s
      | Some i \<Rightarrow> if truthy (Some i) then clearTimeout i s else s)"

text \<open>
  One commit in which both effects run (their dependency lists share the slot map, the
  session flag and the aggression level): the pending cleanup first, then the effect
  bodies in the order of their declaration, all on the values of the rendered state.
\<close>

definition commitEffects :: "real \<Rightarrow> real \<Rightarrow> App \<Rightarrow> App" where
  "commitEffects randomDraw1 randomDraw2 s =
     catAIEffect s randomDraw2 (restartCatTimerEffect s randomDraw1 (catAICleanup s))"

text \<open>The attack-scheduling timers among the pending timeouts.\<close>

fun isAttackCallback :: "Callback \<Rightarrow> bool" where
  "isAttackCallback (FirstAttack cs d a) = True"
| "isAttackCallback (NextSabotage cs d a) = True"
| "isAttackCallback (RetrySchedule cs d a) = True"
| "isAttackCallback cb = False"

definition attackTimers :: "App \<Rightarrow> Timer list" where
  "attackTimers s = filter (\<lambda>t. isAttackCallback (callback t)) (timeouts s)"

subsection \<open>Socket effect and server events\<close>

definition socketEffect :: "App \<Rightarrow> App" where
  "socketEffect s = (addDebugLog DbgConnecting s)\<lparr>socket := Some SocketConnection\<rparr>"

definition onConnect :: "App \<Rightarrow> App" where
  "onConnect s = addDebugLog DbgConnected (addLog LogConnected (s\<lparr>isConnected := True\<rparr>))"

definition onDisconnect :: "App \<Rightarrow> App" where
  "onDisconnect s = addDebugLog DbgDisconnected (addLog LogDisconnected (s\<lparr>isConnected := False\<rparr>))"

definition onPong :: "App \<Rightarrow> App" where
  "onPong s = addLog LogPong (addDebugLog DbgPong s)"

definition onDeploymentLog :: "string \<Rightarrow> App \<Rightarrow> App" where
  "onDeploymentLog msg s = addDebugLog DbgDeploymentLog (addLog (LogServer msg) s)"

definition resetComponents :: "App \<Rightarrow> App" where
  "resetComponents s =
     addLog LogComponentsReset
       (s\<lparr>componentStates := noComponents, shakingComponents := {}, pendingAttacks := {},
          sabotageTimeoutId := None\<rparr>)"

text \<open>
  The \<^verbatim>\<open>deploymentComplete\<close> handler. The points shown in the success line are computed
  from the \<^verbatim>\<open>gameStats\<close> of the handler's closure, which is the state of the first
  render.
\<close>

definition onDeploymentComplete :: "bool \<Rightarrow> App \<Rightarrow> App" where
  "onDeploymentComplete success s =
     (let s1 = addDebugLog (DbgDeploymentComplete success) s;
          s2 = s1\<lparr>isDeploymentInProgress := False\<rparr>;
          prev = gameStats s2
      in if success
         then (let streakBonus = (if streak prev \<ge> 3 then 50 else 0);
                   totalPoints = 100 + streakBonus;
                   s3 = s2\<lparr>gameStats := prev\<lparr>score := score prev + totalPoints,
                              deployments := deployments prev + 1,
                              streak := streak prev + 1\<rparr>\<rparr>;
                   s4 = s3\<lparr>forceUpdate := forceUpdate s3 + 1\<rparr>;
                   s5 = addLog (LogDeploymentSuccessful
                                  (100 + (if streak initialGameStats \<ge> 3 then 50 else 0))) s4
               in snd (setTimeout ResetAfterSuccess 2000 s5))
         else (let s3 = s2\<lparr>gameStats := prev\<lparr>failedDeployments := failedDeployments prev + 1,
                              score := max 0 (score prev - 25),
                              streak := 0\<rparr>\<rparr>;
                   s4 = s3\<lparr>forceUpdate := forceUpdate s3 + 1\<rparr>;
                   s5 = addLog LogDeploymentFailed s4
               in snd (setTimeout ResetAfterFailure 2000 s5)))"

subsection \<open>Player actions\<close>

definition handleDragStart :: "ComponentType \<Rightarrow> App \<Rightarrow> App" where
  "handleDragStart componentType s = addLog (LogPickedUp componentType) s"

definition handleDrop :: "ComponentType \<Rightarrow> ComponentType \<Rightarrow> App \<Rightarrow> App" where
  "handleDrop componentType dropZoneType s =
     (if componentType = dropZoneType
      then (let prev = componentStates s;
                newStates = setComponent prev componentType \<lparr>placed = True\<rparr>;
                wasEmpty = list_all (\<lambda>st. \<not> placed st) (objectValues prev);
                s1 = s\<lparr>componentStates := newStates\<rparr>;
                s2 = s1\<lparr>shakingComponents := shakingComponents s1 - {componentType}\<rparr>;
                s3 = addLog (LogPlaced componentType) s2
            in if wasEmpty \<and> placedCount newStates = 1 then addLog LogTimerStarted s3 else s3)
      else addLog (LogWrongSlot componentType) s)"

definition totalFailureChance :: "int \<Rightarrow> GameStats \<Rightarrow> nat \<Rightarrow> real" where
  "totalFailureChance aggression stats shakingSize =
     (let baseFailureChance = 0.15;
          aggressionPenalty = (real_of_int aggression - 1) * 0.05;
          failureStreakPenalty = real_of_int (failedDeployments stats) * 0.02;
          successStreakBonus = real_of_int (deployments stats) * 0.01;
          shakingPenalty = real shakingSize * 0.1
      in max 0.05 (min 0.4
           (baseFailureChance + aggressionPenalty + failureStreakPenalty + shakingPenalty
              - successStreakBonus)))"

text \<open>\<open>randomDraw\<close> is the \<^verbatim>\<open>Math.random()\<close> compared with the failure chance.\<close>

definition startDeployment :: "real \<Rightarrow> App \<Rightarrow> App" where
  "startDeployment randomDraw s =
     (if \<not> allPlaced (componentStates s) then addLog LogAllMustBePlaced s
      else if isDeploymentInProgress s then addLog LogAlreadyInProgress s
      else (let s1 = s\<lparr>isDeploymentInProgress := True\<rparr>;
                chance = totalFailureChance (catAggression s) (gameStats s)
                           (card (shakingComponents s));
                willFail = (randomDraw < chance);
                s2 = addLog (LogStartingDeployment (mathRound (chance * 100))) s1;
                s3 = addDebugLog (DbgStartingDeployment willFail chance) s2
            in case socket s of
                 None \<Rightarrow> s3
               | Some sock \<Rightarrow> s3\<lparr>emitted := emitted s3 @ [DeploymentStart willFail chance]\<rparr>))"

text \<open>
  \<^verbatim>\<open>emergencyFix\<close> tests \<^verbatim>\<open>shakingComponents.size\<close> and \<^verbatim>\<open>gameStats.score\<close> of
  its render (\<open>rendered\<close>) and takes the cost and the cancelled attacks from it; the
  debit is an updater on the state as it is when the update is applied (\<open>s\<close>), with
  no floor. A click handled on an up-to-date render is \<open>emergencyFix s s\<close>.
\<close>

definition emergencyFix :: "App \<Rightarrow> App \<Rightarrow> App" where
  "emergencyFix rendered s =
     (if card (shakingComponents rendered) = 0 then addLog LogNoFixNeeded s
      else (let cost = int (card (shakingComponents rendered)) * 25
            in if score (gameStats rendered) < cost
               then addLog (LogNeedPoints cost (score (gameStats rendered))) s
               else (let attacksBeingCancelled = pendingAttacks rendered;
                         s1 = addDebugLog (DbgCancelling attacksBeingCancelled) s;
                         s2 = s1\<lparr>pendingAttacks := {}\<rparr>;
                         s3 = s2\<lparr>gameStats := (gameStats s2)\<lparr>score := score (gameStats s2) - cost\<rparr>\<rparr>;
                         s4 = s3\<lparr>shakingComponents := {}\<rparr>;
                         s5 = addLog (LogFixApplied cost (card attacksBeingCancelled)) s4
                     in s5\<lparr>forceUpdate := forceUpdate s5 + 1\<rparr>)))"

subsection \<open>Timer callbacks and the event loop\<close>

text \<open>The random draws a timer callback may make.\<close>

record Draws =
  aggressionRoll :: real
  targetPick :: real
  shuffled :: "ComponentType list"
  intervalDraw :: real

text \<open>
  The timer callback of both attack-scheduling effects up to the call of
  \<^verbatim>\<open>performCatSabotage\<close>; the second component tells whether the callback went on (no
  exception).
\<close>

definition attackFromClosure :: "ComponentStates \<Rightarrow> bool \<Rightarrow> int \<Rightarrow> Draws \<Rightarrow> App \<Rightarrow> App \<times> bool" where
  "attackFromClosure cs deploying aggression d s =
     (if length (currentPlacedComponents cs) > 0 \<and> \<not> deploying
      then (case performCatSabotage aggression (currentPlacedComponents cs)
                   (aggressionRoll d) (targetPick d) (shuffled d) s of
              None \<Rightarrow> (s\<lparr>catAnimation := Moving\<rparr>, False)
            | Some s' \<Rightarrow> (s', True))
      else (s, True))"

fun runCallback :: "Callback \<Rightarrow> Draws \<Rightarrow> App \<Rightarrow> App" where
  "runCallback (WarnStart target) d s = startComponentWarning target s"
| "runCallback (ResolveWarning target) d s = resolveWarning target s"
| "runCallback CatIdle d s = s\<lparr>catAnimation := Idle\<rparr>"
| "runCallback ResetAfterSuccess d s = addLog LogResetForNext (resetComponents s)"
| "runCallback ResetAfterFailure d s = addLog LogResetTryAgain (resetComponents s)"
| "runCallback (FirstAttack cs deploying aggression) d s =
     fst (attackFromClosure cs deploying aggression d s)"
| "runCallback (NextSabotage cs deploying aggression) d s =
     (case attackFromClosure cs deploying aggression d s of
        (s', ok) \<Rightarrow> if ok then scheduleNextSabotage cs deploying aggression (intervalDraw d) s'
                    else s')"
| "runCallback (RetrySchedule cs deploying aggression) d s =
     scheduleNextSabotage cs deploying aggression (intervalDraw d) s"

text \<open>The timeout with handle \<open>i\<close> fires: it leaves the table and its callback runs.\<close>

definition fireTimeout :: "nat \<Rightarrow> Draws \<Rightarrow> App \<Rightarrow> App" where
  "fireTimeout i d s =
     (case find (\<lambda>t. tid t = i) (timeouts s) of
        None \<Rightarrow> s
      | Some t \<Rightarrow> runCallback (callback t) d (clearTimeout i s))"

text \<open>
  Between two events React renders, so a handler sees the state the event before it left,
  with one exception that is an event of its own: \<open>CompletionThenEmergencyFix\<close> is a
  \<^verbatim>\<open>deploymentComplete\<close> message followed by a click on the emergency-fix button that
  is handled before React has rendered the update of the message, so that the click runs
  the handler of the render before the message.
\<close>

datatype Event =
    DragStart ComponentType
  | Drop ComponentType ComponentType
  | ClickDeploy real
  | ClickReset
  | ClickEmergencyFix
  | SocketConnect
  | SocketDisconnect
  | SocketPong
  | SocketDeploymentLog string
  | SocketDeploymentComplete bool
  | TimerTick int
  | Fire nat Draws
  | Commit real real
  | CompletionThenEmergencyFix bool

fun dispatch :: "Event \<Rightarrow> App \<Rightarrow> App" where
  "dispatch (DragStart c) s = handleDragStart c s"
| "dispatch (Drop c z) s = handleDrop c z s"
| "dispatch (ClickDeploy r) s = startDeployment r s"
| "dispatch ClickReset s = resetComponents s"
| "dispatch ClickEmergencyFix s = emergencyFix s s"
| "dispatch SocketConnect s = onConnect s"
| "dispatch SocketDisconnect s = onDisconnect s"
| "dispatch SocketPong s = onPong s"
| "dispatch (SocketDeploymentLog msg) s = onDeploymentLog msg s"
| "dispatch (SocketDeploymentComplete success) s = onDeploymentComplete success s"
| "dispatch (TimerTick elapsed) s = gameTimerTick elapsed s"
| "dispatch (Fire i d) s = fireTimeout i d s"
| "dispatch (Commit r1 r2) s = commitEffects r1 r2 s"
| "dispatch (CompletionThenEmergencyFix success) s = emergencyFix s (onDeploymentComplete success s)"

text \<open>Events are processed one at a time, oldest first.\<close>

fun run :: "Event list \<Rightarrow> App \<Rightarrow> App" where
  "run [] s = s"
| "run (e # es) s = run es (dispatch e s)"

text \<open>
  The first commit runs the mount effects in the order of their declaration; with no
  component placed the two attack-scheduling effects set no timer, and the socket effect
  creates the connection object.
\<close>

definition mounted :: App where
  "mounted = catAIEffect initialApp 0 (socketEffect (restartCatTimerEffect initialApp 0 initialApp))"

text \<open>
  The states of the running application: the mounted state and whatever any sequence of
  events makes of it. Events may come in any order, so this covers every interleaving of
  player actions, timer callbacks, server messages and effect commits.
\<close>

inductive reachable :: "App \<Rightarrow> bool" where
  reachable_mounted: "reachable mounted"
| reachable_dispatch: "reachable s \<Longrightarrow> reachable (dispatch e s)"

section \<open>The deployment narrator (server)\<close>

text \<open>
  The server keeps no state between requests: a request is answered by the list of events
  it emits on the socket, each with its offset in milliseconds from the request (the
  \<^verbatim>\<open>await\<close>ed delays added up). Message texts are given without their leading emoji.
\<close>

datatype Level = Info | Success | Warning | Error

record Step =
  message :: string
  level :: Level

record Scenario =
  failAt :: nat
  steps :: "Step list"

definition successSteps :: "Step list" where
  "successSteps =
     [\<lparr>message = ''Starting deployment pipeline...'', level = Info\<rparr>,
      \<lparr>message = ''Installing dependencies...'', level = Info\<rparr>,
      \<lparr>message = ''Dependencies installed successfully'', level = Success\<rparr>,
      \<lparr>message = ''Building application...'', level = Info\<rparr>,
      \<lparr>message = ''Build completed successfully'', level = Success\<rparr>,
      \<lparr>message = ''Running unit tests...'', level = Info\<rparr>,
      \<lparr>message = ''All tests passed (247/247)'', level = Success\<rparr>,
      \<lparr>message = ''Deploying to production...'', level = Info\<rparr>,
      \<lparr>message = ''Deployment successful!'', level = Success\<rparr>]"

definition failureScenarios :: "Scenario list" where
  "failureScenarios =
     [\<lparr>failAt = 3, steps =
        [\<lparr>message = ''Starting deployment pipeline...'', level = Info\<rparr>,
         \<lparr>message = ''Installing dependencies...'', level = Info\<rparr>,
         \<lparr>message = ''Dependency conflict detected!'', level = Error\<rparr>,
         \<lparr>message = ''Build failed - incompatible package versions'', level = Error\<rparr>]\<rparr>,
      \<lparr>failAt = 6, steps =
        [\<lparr>message = ''Starting deployment pipeline...'', level = Info\<rparr>,
         \<lparr>message = ''Installing dependencies...'', level = Info\<rparr>,
         \<lparr>message = ''Dependencies installed successfully'', level = Success\<rparr>,
         \<lparr>message = ''Building application...'', level = Info\<rparr>,
         \<lparr>message = ''Build completed successfully'', level = Success\<rparr>,
         \<lparr>message = ''Running unit tests...'', level = Info\<rparr>,
         \<lparr>message = ''Tests failed: 12 failures, 235 passed'', level = Error\<rparr>,
         \<lparr>message = ''Deployment aborted due to test failures'', level = Error\<rparr>]\<rparr>,
      \<lparr>failAt = 8, steps =
        [\<lparr>message = ''Starting deployment pipeline...'', level = Info\<rparr>,
         \<lparr>message = ''Installing dependencies...'', level = Info\<rparr>,
         \<lparr>message = ''Dependencies installed successfully'', level = Success\<rparr>,
         \<lparr>message = ''Building application...'', level = Info\<rparr>,
         \<lparr>message = ''Build completed successfully'', level = Success\<rparr>,
         \<lparr>message = ''Running unit tests...'', level = Info\<rparr>,
         \<lparr>message = ''All tests passed (247/247)'', level = Success\<rparr>,
         \<lparr>message = ''Deploying to production...'', level = Info\<rparr>,
         \<lparr>message = ''Deployment failed - server timeout'', level = Error\<rparr>,
         \<lparr>message = ''Rolling back to previous version...'', level = Warning\<rparr>,
         \<lparr>message = ''Rollback completed'', level = Info\<rparr>]\<rparr>]"

text \<open>
  \<^verbatim>\<open>deploymentLog\<close> carries message, level and, for a script line, (step, totalSteps);
  \<^verbatim>\<open>deploymentComplete\<close> carries success and, on the regular path, (totalSteps, duration).
\<close>

datatype ServerEvent =
    DeploymentLog string Level "(nat \<times> nat) option"
  | DeploymentComplete bool "(nat \<times> nat) option"

datatype ServerError = TypeError

text \<open>The \<^verbatim>\<open>for\<close> loop over \<^verbatim>\<open>stepsToExecute\<close>: 800 ms, then one log line.\<close>

fun emitSteps :: "Step list \<Rightarrow> nat \<Rightarrow> nat \<Rightarrow> nat \<Rightarrow> (nat \<times> ServerEvent) list" where
  "emitSteps [] i totalSteps t = []"
| "emitSteps (st # rest) i totalSteps t =
     (t + 800, DeploymentLog (message st) (level st) (Some (i + 1, totalSteps)))
       # emitSteps rest (i + 1) totalSteps (t + 800)"

definition playScript :: "Step list \<Rightarrow> bool \<Rightarrow> (nat \<times> ServerEvent) list" where
  "playScript stepsToExecute willSucceed =
     (let n = length stepsToExecute
      in emitSteps stepsToExecute 0 n 0
           @ [(n * 800 + 500, DeploymentComplete willSucceed (Some (n, n * 800 + 500)))])"

text \<open>
  \<open>randomDraw\<close> is the \<^verbatim>\<open>Math.random()\<close> that picks the failure scenario; an index
  outside the array reads \<^verbatim>\<open>undefined\<close>, whose \<^verbatim>\<open>.steps\<close> throws before anything is
  emitted.
\<close>

definition simulateDeployment :: "bool \<Rightarrow> real \<Rightarrow> ServerError + (nat \<times> ServerEvent) list" where
  "simulateDeployment shouldFail randomDraw =
     (if shouldFail
      then (let i = \<lfloor>randomDraw * real (length failureScenarios)\<rfloor>
            in if 0 \<le> i \<and> nat i < length failureScenarios
               then Inr (playScript (steps (failureScenarios ! nat i)) False)
               else Inl TypeError)
      else Inr (playScript successSteps True))"

text \<open>
  The \<^verbatim>\<open>deploymentStart\<close> handler: the acknowledgement line, then the simulation
  (\<^verbatim>\<open>data.forceFailure || false\<close>); the \<^verbatim>\<open>catch\<close> answers an exception with a failed
  completion.
\<close>

definition onDeploymentStart :: "bool option \<Rightarrow> real \<Rightarrow> (nat \<times> ServerEvent) list" where
  "onDeploymentStart forceFailureField randomDraw =
     (0, DeploymentLog ''Deployment request received! Starting pipeline...'' Info None)
       # (case simulateDeployment (case forceFailureField of None \<Rightarrow> False | Some b \<Rightarrow> b) randomDraw of
            Inl err \<Rightarrow> [(0, DeploymentComplete False None)]
          | Inr events \<Rightarrow> events)"

fun isComplete :: "ServerEvent \<Rightarrow> bool" where
  "isComplete (DeploymentComplete ok info) = True"
| "isComplete (DeploymentLog m l info) = False"

text \<open>The completion events of a response, and the lines of the script it plays.\<close>

definition completions :: "(nat \<times> ServerEvent) list \<Rightarrow> ServerEvent list" where
  "completions evs = filter isComplete (map snd evs)"

fun scriptLine :: "ServerEvent \<Rightarrow> Step list" where
  "scriptLine (DeploymentLog m l (Some info)) = [\<lparr>message = m, level = l\<rparr>]"
| "scriptLine ev = []"

definition scriptPlayed :: "(nat \<times> ServerEvent) list \<Rightarrow> Step list" where
  "scriptPlayed evs = concat (map (\<lambda>e. scriptLine (snd e)) evs)"

section \<open>Invariants of the running application\<close>

definition countersOk :: "GameStats \<Rightarrow> bool" where
  "countersOk g = (0 \<le> deployments g \<and> 0 \<le> sabotages g
     \<and> 0 \<le> failedDeployments g \<and> 0 \<le> streak g)"

text \<open>
  What every handler keeps: the four counters are not negative, the connection object
  exists, and a shaking slot is always a pending one.
\<close>

definition appInv :: "App \<Rightarrow> bool" where
  "appInv s = (countersOk (gameStats s) \<and> socket s \<noteq> None
     \<and> shakingComponents s \<subseteq> pendingAttacks s)"

text \<open>
  A new warning for slot \<open>c\<close> starts with event \<open>e\<close>: the event fires a staggered
  \<^verbatim>\<open>startComponentWarning(c)\<close> timeout.
\<close>

definition startsWarning :: "ComponentType \<Rightarrow> Event \<Rightarrow> App \<Rightarrow> bool" where
  "startsWarning c e s =
     (case e of
        Fire i d \<Rightarrow>
          (case find (\<lambda>t. tid t = i) (timeouts s) of
             None \<Rightarrow> False
           | Some t \<Rightarrow> callback t = WarnStart c)
      | _ \<Rightarrow> False)"

fun noNewWarning :: "ComponentType \<Rightarrow> Event list \<Rightarrow> App \<Rightarrow> bool" where
  "noNewWarning c [] s = True"
| "noNewWarning c (e # es) s = (\<not> startsWarning c e s \<and> noNewWarning c es (dispatch e s))"

text \<open>The callback a \<open>Fire\<close> event runs, if the handle is pending.\<close>

definition firedCallback :: "Event \<Rightarrow> App \<Rightarrow> Callback option" where
  "firedCallback e s =
     (case e of
        Fire i d \<Rightarrow> map_option callback (find (\<lambda>t. tid t = i) (timeouts s))
      | _ \<Rightarrow> None)"

section \<open>Scenarios\<close>

text \<open>
  Concrete runs used to evaluate the model. Every state change that one of the effects
  depends on is followed by the commit React makes for it. The draws are fixed values in
  the range of \<^verbatim>\<open>Math.random()\<close>; \<open>shuffled\<close> is a permutation of the slots placed
  in the closure of the attack that uses it.
\<close>

definition drawsOne :: Draws where
  "drawsOne = \<lparr>aggressionRoll = 1/2, targetPick = 0, shuffled = [Build], intervalDraw = 1/2\<rparr>"

definition drawsTwo :: Draws where
  "drawsTwo = \<lparr>aggressionRoll = 1/10, targetPick = 0, shuffled = [Test, Build],
     intervalDraw = 1/2\<rparr>"

text \<open>The player fills the three slots.\<close>

definition fillAll :: "Event list" where
  "fillAll = [Drop Build Build, Commit (1/2) (1/2), Drop Test Test, Commit (1/2) (1/2),
     Drop Deploy Deploy, Commit (1/2) (1/2)]"

text \<open>
  A game: the slots are filled, the deployment is requested (\<open>r\<close> is the draw for the
  outcome), the server's completion arrives, and the delayed reset (timeout \<open>i\<close>)
  fires. Four games in a row, the first successful, the others failed with the shortest
  script: with the drops 0.3 s apart, the request 0.4 s after the last drop and the next
  game 0.3 s after the reset, the fourth reset is at 31.7 s, before any attack timer is
  due (timer 1, set at 0 s, is the first, at 35 s).
\<close>

definition game :: "real \<Rightarrow> bool \<Rightarrow> nat \<Rightarrow> Event list" where
  "game r success i =
     fillAll @ [ClickDeploy r, Commit (1/2) (1/2), SocketDeploymentComplete success,
       Commit (1/2) (1/2), Fire i drawsOne, Commit (1/2) (1/2)]"

definition fourGames :: "Event list" where
  "fourGames = game (9/10) True 5 @ game (1/100) False 11 @ game (1/100) False 17
     @ game (1/100) False 23"

text \<open>
  The fifth game: the slots are filled by 32.6 s, timer 1 fires at 35 s and warns the
  build slot (timeout 29, resolution due at 40 s), and the deployment is requested at
  36 s; its failure script ends at 39.7 s.
\<close>

definition fifthDeployment :: "Event list" where
  "fifthDeployment =
     fourGames @ fillAll @ [Fire 1 drawsOne, Fire 29 drawsOne, ClickDeploy (1/100),
       Commit (1/2) (1/2)]"

text \<open>
  An attack warns the build slot, then the player deploys. With the drops at 0 s, 1 s and
  2 s, the attack timer set by the first drop (timer 1, delay 35 s) fires at 35 s and the
  warning starts (timeout 5, then the resolution timeout 7, due at 40 s); the player
  requests the deployment at 36 s, and the commit of that render clears the other attack
  timer (timer 4, due at 37 s). The server's script ends 7.7 s after the request.
\<close>

definition warnedLiveSession :: "Event list" where
  "warnedLiveSession =
     fillAll @ [Fire 1 drawsOne, Fire 5 drawsOne, ClickDeploy (9/10), Commit (1/2) (1/2)]"

text \<open>
  Two minutes into the game (aggression 3) the player fills two slots; the attack with
  the two-slot closure targets both, the second warning staggered by 1500 ms. The player
  resets the pipeline in between, the staggered warning starts on the now empty build
  slot, and the player places the build component again.
\<close>

definition redropWhileWarned :: "Event list" where
  "redropWhileWarned =
     [TimerTick 120, Commit (1/2) (1/2), Drop Build Build, Commit (9/10) (1/2),
      Drop Test Test, Commit (1/2) 0, Fire 3 drawsTwo, Fire 4 drawsTwo,
      ClickReset, Commit (1/2) (1/2), Fire 5 drawsTwo, Drop Build Build]"

text \<open>
  A first game that ends in a successful deployment (score 100) and the start of a second
  one. With the first drop at 0 s, the drops at 1 s and 2 s, the deployment at 3 s, its
  completion at 10.7 s, the reset at 12.7 s and the next drop at 13 s, the two attack
  timers of the "restart" effect, which nothing ever clears, are due at 39.5 s (timer 1,
  set by the first drop of the first game) and at 43 s (timer 7, set by the first drop of
  the second game).
\<close>

definition secondGame :: "Event list" where
  "secondGame =
     [Drop Build Build, Commit (95/100) (1/2), Drop Test Test, Commit (1/2) (1/2),
      Drop Deploy Deploy, Commit (1/2) (1/2), ClickDeploy (9/10), Commit (1/2) (1/2),
      SocketDeploymentComplete True, Commit (1/2) (1/2), Fire 5 drawsOne,
      Commit (1/2) (1/2), Drop Build Build, Commit 0 (1/2)]"

text \<open>
  Timer 1 fires at 39.5 s and the build slot is warned (timeout 9, then the resolution
  timeout 11, due at 44.5 s); after an emergency fix at 40 s, timer 7 fires at 43 s and
  warns the build slot again (timeout 12) within that grace period.
\<close>

definition firstWarning :: "Event list" where
  "firstWarning = secondGame @ [Fire 1 drawsOne, Fire 9 drawsOne]"

definition secondWarning :: "Event list" where
  "secondWarning = [Fire 7 drawsOne, Fire 12 drawsOne]"

section \<open>Shared lemmas\<close>

lemmas basic_defs = addLog_def addDebugLog_def setTimeout_def clearTimeout_def

lemma staggerWarnings_frame:
  "gameStats (staggerWarnings ts i s) = gameStats s \<and>
   socket (staggerWarnings ts i s) = socket s \<and>
   shakingComponents (staggerWarnings ts i s) = shakingComponents s \<and>
   pendingAttacks (staggerWarnings ts i s) = pendingAttacks s \<and>
   componentStates (staggerWarnings ts i s) = componentStates s \<and>
   isDeploymentInProgress (staggerWarnings ts i s) = isDeploymentInProgress s \<and>
   emitted (staggerWarnings ts i s) = emitted s"
  by (induction ts i s rule: staggerWarnings.induct) (simp_all add: basic_defs)

lemma sabotageTargets_inv: "appInv s \<Longrightarrow> appInv (sabotageTargets k p sh s)"
  by (simp add: appInv_def countersOk_def sabotageTargets_def Let_def basic_defs staggerWarnings_frame)

lemma performCatSabotage_inv:
  assumes "appInv s" and "performCatSabotage a p r k sh s = Some s'"
  shows "appInv s'"
proof -
  have moved: "appInv (addLog m (s\<lparr>catAnimation := Moving\<rparr>))" for m
    using assms(1) by (simp add: appInv_def addLog_def)
  from assms(2) show ?thesis
    by (auto simp: performCatSabotage_def Let_def sabotageTargets_inv moved
        split: if_splits option.splits)
qed

lemma inv_catAnimation: "appInv s \<Longrightarrow> appInv (s\<lparr>catAnimation := x\<rparr>)"
  by (simp add: appInv_def)

lemma attackFromClosure_inv: "appInv s \<Longrightarrow> appInv (fst (attackFromClosure cs dp a d s))"
  by (auto simp: attackFromClosure_def inv_catAnimation performCatSabotage_inv split: option.splits)

lemma scheduleNextSabotage_inv: "appInv s \<Longrightarrow> appInv (scheduleNextSabotage cs dp a r s)"
  by (simp add: appInv_def scheduleNextSabotage_def Let_def basic_defs)

lemma startComponentWarning_inv: "appInv s \<Longrightarrow> appInv (startComponentWarning c s)"
  by (auto simp: appInv_def startComponentWarning_def Let_def basic_defs)

lemma resolveWarning_inv: "appInv s \<Longrightarrow> appInv (resolveWarning c s)"
  by (auto simp: appInv_def resolveWarning_def Let_def basic_defs)

lemma resetComponents_inv: "appInv s \<Longrightarrow> appInv (resetComponents s)"
  by (auto simp: appInv_def resetComponents_def Let_def basic_defs)

lemma addLog_inv: "appInv s \<Longrightarrow> appInv (addLog m s)"
  by (simp add: appInv_def addLog_def)

lemma runCallback_inv:
  assumes "appInv s"
  shows "appInv (runCallback cb d s)"
proof (cases cb)
  case (NextSabotage cs dp a)
  show ?thesis
    using attackFromClosure_inv[OF assms, of cs dp a d]
    by (auto simp: NextSabotage scheduleNextSabotage_inv split: prod.splits)
qed (simp_all add: assms startComponentWarning_inv resolveWarning_inv inv_catAnimation addLog_inv
      resetComponents_inv attackFromClosure_inv scheduleNextSabotage_inv)

lemma clearTimeout_inv: "appInv s \<Longrightarrow> appInv (clearTimeout i s)"
  by (simp add: appInv_def clearTimeout_def)

lemma fireTimeout_inv: "appInv s \<Longrightarrow> appInv (fireTimeout i d s)"
  by (simp add: fireTimeout_def runCallback_inv clearTimeout_inv split: option.splits)

lemma handleDrop_inv: "appInv s \<Longrightarrow> appInv (handleDrop c z s)"
  by (auto simp: appInv_def handleDrop_def Let_def basic_defs)

lemma startDeployment_inv: "appInv s \<Longrightarrow> appInv (startDeployment r s)"
  by (auto simp: appInv_def startDeployment_def Let_def basic_defs split: option.splits)

lemma emergencyFix_inv: "appInv s \<Longrightarrow> appInv (emergencyFix rendered s)"
  by (auto simp: appInv_def countersOk_def emergencyFix_def Let_def basic_defs)

lemma onDeploymentComplete_inv: "appInv s \<Longrightarrow> appInv (onDeploymentComplete b s)"
  by (auto simp: appInv_def countersOk_def onDeploymentComplete_def Let_def basic_defs)

lemma gameTimerTick_inv: "appInv s \<Longrightarrow> appInv (gameTimerTick n s)"
  by (auto simp: appInv_def countersOk_def gameTimerTick_def Let_def basic_defs)

lemma commitEffects_inv: "appInv s \<Longrightarrow> appInv (commitEffects r1 r2 s)"
  by (auto simp: appInv_def commitEffects_def catAIEffect_def catAICleanup_def
      restartCatTimerEffect_def scheduleNextSabotage_def Let_def basic_defs
      split: option.splits prod.splits)

lemma socketHandlers_inv:
  "appInv s \<Longrightarrow> appInv (onConnect s)"
  "appInv s \<Longrightarrow> appInv (onDisconnect s)"
  "appInv s \<Longrightarrow> appInv (onPong s)"
  "appInv s \<Longrightarrow> appInv (onDeploymentLog m s)"
  by (simp_all add: onConnect_def onDisconnect_def onPong_def onDeploymentLog_def appInv_def
      basic_defs)

lemma dispatch_inv: "appInv s \<Longrightarrow> appInv (dispatch e s)"
  by (cases e) (simp_all add: handleDrop_inv startDeployment_inv emergencyFix_inv
      onDeploymentComplete_inv gameTimerTick_inv commitEffects_inv fireTimeout_inv
      resetComponents_inv handleDragStart_def addLog_inv socketHandlers_inv)

lemma emergencyFix_frame:
  "componentStates (emergencyFix rendered s) = componentStates s
   \<and> pendingAttacks (emergencyFix rendered s) \<subseteq> pendingAttacks s"
  by (simp add: emergencyFix_def Let_def basic_defs)

lemma onDeploymentComplete_frame:
  "componentStates (onDeploymentComplete ok s) = componentStates s
   \<and> pendingAttacks (onDeploymentComplete ok s) = pendingAttacks s"
  by (simp add: onDeploymentComplete_def Let_def basic_defs)

lemma mounted_eq:
  "mounted = initialApp\<lparr>socket := Some SocketConnection, socketEvents := [DbgConnecting]\<rparr>"
  by (simp add: mounted_def catAIEffect_def socketEffect_def restartCatTimerEffect_def
      initialApp_def placedCount_def objectValues_def noComponents_def basic_defs)

lemma mounted_inv: "appInv mounted"
  by (simp add: mounted_eq appInv_def countersOk_def initialApp_def initialGameStats_def)

lemma reachable_inv: "reachable s \<Longrightarrow> appInv s"
  by (induction rule: reachable.induct) (simp_all add: mounted_inv dispatch_inv)

lemma reachable_run: "reachable s \<Longrightarrow> reachable (run es s)"
  by (induction es arbitrary: s) (simp_all add: reachable_dispatch)

text \<open>Which events can change a slot, and which can add to the pending set.\<close>

lemma placed_eq: "(st = \<lparr>placed = b\<rparr>) = (placed st = b)" for st :: ComponentState
  by (cases st) auto

lemma setComponent_same:
  "(setComponent cs c \<lparr>placed = b\<rparr> = cs) = (placed (getComponent cs c) = b)"
  by (cases cs; cases c) (auto simp: placed_eq)

lemma sabotageTargets_slots: "componentStates (sabotageTargets k p sh s) = componentStates s"
  and sabotageTargets_pending: "pendingAttacks (sabotageTargets k p sh s) = pendingAttacks s"
  by (simp_all add: sabotageTargets_def Let_def basic_defs staggerWarnings_frame)

lemma performCatSabotage_frame:
  assumes "performCatSabotage a p r k sh s = Some s'"
  shows "componentStates s' = componentStates s \<and> pendingAttacks s' = pendingAttacks s"
  using assms
  by (auto simp: performCatSabotage_def Let_def sabotageTargets_slots sabotageTargets_pending addLog_def
      split: if_splits option.splits)

lemma attackFromClosure_frame:
  "componentStates (fst (attackFromClosure cs dp a d s)) = componentStates s \<and>
   pendingAttacks (fst (attackFromClosure cs dp a d s)) = pendingAttacks s"
  by (auto simp: attackFromClosure_def dest: performCatSabotage_frame split: option.splits)

lemma scheduleNextSabotage_frame:
  "componentStates (scheduleNextSabotage cs dp a r s) = componentStates s \<and>
   pendingAttacks (scheduleNextSabotage cs dp a r s) = pendingAttacks s"
  by (simp add: scheduleNextSabotage_def Let_def basic_defs)

lemma nextSabotage_frame:
  "componentStates (runCallback (NextSabotage cs dp a) d s) = componentStates s \<and>
   pendingAttacks (runCallback (NextSabotage cs dp a) d s) = pendingAttacks s"
proof -
  obtain s' ok where att: "attackFromClosure cs dp a d s = (s', ok)"
    by (cases "attackFromClosure cs dp a d s")
  have same: "componentStates s' = componentStates s \<and> pendingAttacks s' = pendingAttacks s"
    using attackFromClosure_frame[of cs dp a d s] by (simp add: att)
  show ?thesis
    by (cases ok) (simp_all add: att same scheduleNextSabotage_frame)
qed

lemma runCallback_slots:
  assumes "componentStates (runCallback cb d s) \<noteq> componentStates s"
  shows "(\<exists>c. cb = ResolveWarning c \<and> c \<in> pendingAttacks s \<and> placed (getComponent (componentStates s) c))
     \<or> cb = ResetAfterSuccess \<or> cb = ResetAfterFailure"
proof (cases cb)
  case (NextSabotage cs dp a)
  with assms nextSabotage_frame[of cs dp a d s] show ?thesis by simp
next
  case (ResolveWarning c)
  with assms show ?thesis
    by (auto simp: resolveWarning_def Let_def basic_defs split: if_splits)
next
  case (WarnStart c)
  with assms show ?thesis by (simp add: startComponentWarning_def Let_def basic_defs)
next
  case (FirstAttack cs dp a)
  with assms attackFromClosure_frame[of cs dp a d s] show ?thesis by simp
next
  case (RetrySchedule cs dp a)
  with assms show ?thesis by (simp add: scheduleNextSabotage_frame)
qed (use assms in simp_all)

lemma runCallback_pending:
  "pendingAttacks (runCallback cb d s) \<subseteq> pendingAttacks s \<union> {c. cb = WarnStart c}"
proof (cases cb)
  case (NextSabotage cs dp a)
  with nextSabotage_frame[of cs dp a d s] show ?thesis by simp
next
  case (FirstAttack cs dp a)
  with attackFromClosure_frame[of cs dp a d s] show ?thesis by simp
qed (auto simp: resolveWarning_def startComponentWarning_def resetComponents_def
      scheduleNextSabotage_frame Let_def basic_defs)

lemma commitEffects_frame:
  "componentStates (commitEffects r1 r2 s) = componentStates s \<and>
   pendingAttacks (commitEffects r1 r2 s) = pendingAttacks s"
  by (auto simp: commitEffects_def catAIEffect_def catAICleanup_def
      restartCatTimerEffect_def scheduleNextSabotage_def Let_def basic_defs
      split: option.splits prod.splits)

lemma handleDrop_slots:
  assumes "componentStates (handleDrop c z s) \<noteq> componentStates s"
  shows "c = z \<and> \<not> placed (getComponent (componentStates s) c)"
  using assms
  by (auto simp: handleDrop_def Let_def basic_defs setComponent_same split: if_splits)

lemma dispatch_slots:
  assumes "componentStates (dispatch e s) \<noteq> componentStates s"
  shows "(\<exists>c. e = Drop c c \<and> \<not> placed (getComponent (componentStates s) c))
     \<or> e = ClickReset
     \<or> (\<exists>c. firedCallback e s = Some (ResolveWarning c) \<and> c \<in> pendingAttacks s
            \<and> placed (getComponent (componentStates s) c))
     \<or> firedCallback e s = Some ResetAfterSuccess
     \<or> firedCallback e s = Some ResetAfterFailure"
proof (cases e)
  case (Drop c z)
  with assms handleDrop_slots[of c z s] show ?thesis by auto
next
  case (Fire i d)
  show ?thesis
  proof (cases "find (\<lambda>t. tid t = i) (timeouts s)")
    case None
    with assms Fire show ?thesis by (simp add: fireTimeout_def)
  next
    case (Some t)
    with assms Fire have "componentStates (runCallback (callback t) d (clearTimeout i s))
        \<noteq> componentStates (clearTimeout i s)"
      by (simp add: fireTimeout_def clearTimeout_def)
    from runCallback_slots[OF this] Some Fire show ?thesis
      by (auto simp: firedCallback_def clearTimeout_def)
  qed
next
  case (Commit r1 r2)
  with assms show ?thesis by (simp add: commitEffects_frame)
next
  case ClickEmergencyFix
  with assms show ?thesis by (simp add: emergencyFix_frame)
next
  case (CompletionThenEmergencyFix ok)
  with assms show ?thesis by (simp add: emergencyFix_frame onDeploymentComplete_frame)
qed (use assms in \<open>simp_all add: handleDragStart_def startDeployment_def
      onConnect_def onDisconnect_def onPong_def onDeploymentLog_def onDeploymentComplete_def
      gameTimerTick_def Let_def basic_defs split: if_splits option.splits\<close>)

lemma dispatch_pending:
  "pendingAttacks (dispatch e s) \<subseteq> pendingAttacks s \<union> {c. startsWarning c e s}"
proof (cases e)
  case (Fire i d)
  show ?thesis
  proof (cases "find (\<lambda>t. tid t = i) (timeouts s)")
    case None
    with Fire show ?thesis by (simp add: fireTimeout_def)
  next
    case (Some t)
    with Fire runCallback_pending[of "callback t" d "clearTimeout i s"] show ?thesis
      by (auto simp: fireTimeout_def startsWarning_def clearTimeout_def)
  qed
next
  case (Commit r1 r2)
  then show ?thesis by (simp add: commitEffects_frame)
next
  case ClickEmergencyFix
  with emergencyFix_frame[of s s] show ?thesis by auto
next
  case (CompletionThenEmergencyFix ok)
  with emergencyFix_frame[of s "onDeploymentComplete ok s"] onDeploymentComplete_frame[of ok s]
  show ?thesis by auto
qed (auto simp: handleDragStart_def startDeployment_def handleDrop_def
      onConnect_def onDisconnect_def onPong_def onDeploymentLog_def onDeploymentComplete_def
      gameTimerTick_def resetComponents_def Let_def basic_defs split: if_splits option.splits)

lemma noNewWarning_pending:
  "noNewWarning c es s \<Longrightarrow> c \<notin> pendingAttacks s \<Longrightarrow> c \<notin> pendingAttacks (run es s)"
proof (induction es arbitrary: s)
  case Nil
  then show ?case by simp
next
  case (Cons e es)
  from Cons.prems have "c \<notin> pendingAttacks (dispatch e s)"
    using dispatch_pending[of e s] by auto
  with Cons show ?case by simp
qed

lemma finite_components: "finite (A :: ComponentType set)"
proof (rule finite_subset)
  show "A \<subseteq> {Build, Test, Deploy}"
  proof
    fix c assume "c \<in> A"
    show "c \<in> {Build, Test, Deploy}" by (cases c) simp_all
  qed
qed simp

lemmas eval_defs = handleDrop_def startDeployment_def emergencyFix_def onDeploymentComplete_def
  resetComponents_def startComponentWarning_def resolveWarning_def performCatSabotage_def
  sabotageTargets_def gameTimerTick_def commitEffects_def catAIEffect_def catAICleanup_def
  restartCatTimerEffect_def scheduleNextSabotage_def fireTimeout_def attackFromClosure_def
  totalFailureChance_def getIntervalTime_def mathRound_def randomElement_def
  placedCount_def objectValues_def objectEntries_def currentPlacedComponents_def allPlaced_def
  noComponents_def initialApp_def initialGameStats_def mounted_eq basic_defs Let_def

section \<open>Outcome reconciliation\<close>

text \<open>
  Claim C4. \<^verbatim>\<open>startDeployment\<close> is rejected unless all three slots are filled and no
  session is live: the only change is one log line, so no request is emitted and stats,
  slots and session flag stay as they are. When both preconditions hold, the session is
  marked live and exactly one start request is appended, carrying the pre-decided
  \<open>forceFailure\<close> flag (the draw compared with the failure chance) and the failure
  chance, which lies in [0.05, 0.40].
\<close>

theorem startDeployment_gate:
  assumes "reachable s"
  shows "if allPlaced (componentStates s) \<and> \<not> isDeploymentInProgress s
         then (let p = totalFailureChance (catAggression s) (gameStats s) (card (shakingComponents s))
               in 0.05 \<le> p \<and> p \<le> 0.4
                  \<and> isDeploymentInProgress (startDeployment r s)
                  \<and> emitted (startDeployment r s) = emitted s @ [DeploymentStart (r < p) p])
         else (\<exists>m. startDeployment r s = s\<lparr>logs := logs s @ [m]\<rparr>)"
proof -
  have "socket s \<noteq> None" using reachable_inv[OF assms] by (simp add: appInv_def)
  then obtain sock where sock: "socket s = Some sock" by auto
  have clamp: "0.05 \<le> max 0.05 (min 0.4 x) \<and> max 0.05 (min 0.4 x) \<le> 0.4" for x :: real
    by (auto simp: max_def min_def)
  have bounds: "0.05 \<le> totalFailureChance a g n \<and> totalFailureChance a g n \<le> 0.4" for a g n
    unfolding totalFailureChance_def Let_def by (rule clamp)
  show ?thesis
    using bounds[of "catAggression s" "gameStats s" "card (shakingComponents s)"]
    by (auto simp: startDeployment_def Let_def sock basic_defs)
qed

theorem startDeployment_gate_witness:
  "reachable (run fillAll mounted)
   \<and> allPlaced (componentStates (run fillAll mounted))
   \<and> \<not> isDeploymentInProgress (run fillAll mounted)
   \<and> emitted (startDeployment (1/10) (run fillAll mounted)) = [DeploymentStart True (3/20)]
   \<and> reachable mounted \<and> \<not> allPlaced (componentStates mounted)
   \<and> startDeployment (1/10) mounted = mounted\<lparr>logs := logs mounted @ [LogAllMustBePlaced]\<rparr>"
proof -
  have r: "reachable (run fillAll mounted)"
    by (rule reachable_run[OF reachable_mounted])
  have a: "allPlaced (componentStates (run fillAll mounted))"
    and b: "\<not> isDeploymentInProgress (run fillAll mounted)"
    and c: "emitted (run fillAll mounted) = []"
    and d: "totalFailureChance (catAggression (run fillAll mounted)) (gameStats (run fillAll mounted))
              (card (shakingComponents (run fillAll mounted))) = 3/20"
    by (simp_all add: fillAll_def eval_defs)
  have e: "\<not> allPlaced (componentStates mounted)"
    by (simp add: eval_defs)
  have f: "startDeployment (1/10) mounted = mounted\<lparr>logs := logs mounted @ [LogAllMustBePlaced]\<rparr>"
    using startDeployment_gate[OF reachable_mounted, of "1/10"] e
    by (simp add: startDeployment_def addLog_def)
  from startDeployment_gate[OF r, of "1/10"] a b c d
  have "emitted (startDeployment (1/10) (run fillAll mounted)) = [DeploymentStart True (3/20)]"
    by (simp add: Let_def)
  with r a b e f reachable_mounted show ?thesis by blast
qed

text \<open>
  Claim C5. A completion event with success adds 100 to the score, plus 50 when the prior
  streak is at least 3, and adds 1 to deployments and to the streak; a failed one adds 1
  to failedDeployments, sets the score to max(0, score - 25) and the streak to 0. Either
  way one timeout of 2000 ms is set whose callback, whenever it runs, leaves all three
  slots unfilled and both the pending and the shaking set empty, and does not touch the
  stats.
\<close>

theorem completion_updates_stats:
  "gameStats (onDeploymentComplete True s) =
     (gameStats s)\<lparr>score := score (gameStats s) + 100 + (if streak (gameStats s) \<ge> 3 then 50 else 0),
        deployments := deployments (gameStats s) + 1, streak := streak (gameStats s) + 1\<rparr>
   \<and> gameStats (onDeploymentComplete False s) =
     (gameStats s)\<lparr>failedDeployments := failedDeployments (gameStats s) + 1,
        score := max 0 (score (gameStats s) - 25), streak := 0\<rparr>
   \<and> timeouts (onDeploymentComplete ok s) = timeouts s @
        [\<lparr>tid = nextTimeoutId s, delay = 2000,
          callback = (if ok then ResetAfterSuccess else ResetAfterFailure)\<rparr>]
   \<and> componentStates (runCallback (if ok then ResetAfterSuccess else ResetAfterFailure) d s') = noComponents
   \<and> pendingAttacks (runCallback (if ok then ResetAfterSuccess else ResetAfterFailure) d s') = {}
   \<and> shakingComponents (runCallback (if ok then ResetAfterSuccess else ResetAfterFailure) d s') = {}
   \<and> gameStats (runCallback (if ok then ResetAfterSuccess else ResetAfterFailure) d s') = gameStats s'"
  by (simp add: onDeploymentComplete_def resetComponents_def Let_def basic_defs)

section \<open>Game statistics and the emergency fix\<close>

text \<open>
  Claim C7, at a run from mount. One successful and three failed deployments leave the
  score at 25. In the fifth game the build slot is warned and the deployment requested;
  the render of that state shows score 25 and one shaking slot. The failed completion sets
  the score to 0, and the click on the emergency-fix button handled before the next render
  passes the test of its own render (25 is not below the cost 25) and debits 25 from the
  score as it is now: the score is -25.
\<close>

theorem stale_fix_makes_score_negative:
  "reachable (run fifthDeployment mounted)
   \<and> score (gameStats (run fifthDeployment mounted)) = 25
   \<and> shakingComponents (run fifthDeployment mounted) = {Build}
   \<and> isDeploymentInProgress (run fifthDeployment mounted)
   \<and> score (gameStats (dispatch (SocketDeploymentComplete False) (run fifthDeployment mounted))) = 0
   \<and> score (gameStats (dispatch (CompletionThenEmergencyFix False) (run fifthDeployment mounted)))
       = - 25
   \<and> reachable (dispatch (CompletionThenEmergencyFix False) (run fifthDeployment mounted))"
proof -
  have r: "reachable (run fifthDeployment mounted)"
    by (rule reachable_run[OF reachable_mounted])
  have v: "gameStats (run fifthDeployment mounted) =
      \<lparr>score = 25, deployments = 1, sabotages = 1, timeSpent = 0, failedDeployments = 3, streak = 0\<rparr>"
    and w: "shakingComponents (run fifthDeployment mounted) = {Build}"
    and l: "isDeploymentInProgress (run fifthDeployment mounted)"
    by (simp_all add: fifthDeployment_def fourGames_def game_def fillAll_def drawsOne_def eval_defs)
  have a: "score (gameStats (dispatch (SocketDeploymentComplete False) (run fifthDeployment mounted))) = 0"
    by (simp add: v onDeploymentComplete_def Let_def basic_defs)
  have b: "score (gameStats (dispatch (CompletionThenEmergencyFix False) (run fifthDeployment mounted)))
       = - 25"
    by (simp add: v w emergencyFix_def onDeploymentComplete_def Let_def basic_defs)
  have sc: "score (gameStats (run fifthDeployment mounted)) = 25"
    by (simp add: v)
  have after: "reachable (dispatch (CompletionThenEmergencyFix False) (run fifthDeployment mounted))"
    using r by (rule reachable_dispatch)
  from r sc w l a b after show ?thesis by blast
qed

text \<open>
  What does hold: the four counters are never negative, and a fix handled on an
  up-to-date render, like the completion handler, never makes a score negative that was
  not negative before.
\<close>

lemma counters_never_negative:
  assumes "reachable s"
  shows "0 \<le> failedDeployments (gameStats s) \<and> 0 \<le> deployments (gameStats s)
    \<and> 0 \<le> sabotages (gameStats s) \<and> 0 \<le> streak (gameStats s)"
  using reachable_inv[OF assms] by (simp add: appInv_def countersOk_def)

lemma emergencyFix_current_render_score:
  "0 \<le> score (gameStats s) \<Longrightarrow> 0 \<le> score (gameStats (emergencyFix s s))"
  by (simp add: emergencyFix_def Let_def basic_defs)

lemma onDeploymentComplete_score:
  "0 \<le> score (gameStats s) \<Longrightarrow> 0 \<le> score (gameStats (onDeploymentComplete ok s))"
  by (simp add: onDeploymentComplete_def Let_def basic_defs)



section \<open>The narrator's outcome\<close>

lemma emitSteps_script: "scriptPlayed (emitSteps xs i n t) = xs"
  by (induction xs i n t rule: emitSteps.induct) (simp_all add: scriptPlayed_def)

lemma emitSteps_completions: "completions (emitSteps xs i n t) = []"
  by (induction xs i n t rule: emitSteps.induct) (simp_all add: completions_def)

lemma playScript_script: "scriptPlayed (playScript xs b) = xs"
  using emitSteps_script[of xs 0 "length xs" 0]
  by (simp add: playScript_def scriptPlayed_def Let_def)

lemma playScript_completions:
  "completions (playScript xs b) = [DeploymentComplete b (Some (length xs, length xs * 800 + 500))]"
  using emitSteps_completions[of xs 0 "length xs" 0]
  by (simp add: playScript_def completions_def Let_def)

lemma ack_script: "scriptPlayed ((t, DeploymentLog m l None) # evs) = scriptPlayed evs"
  by (simp add: scriptPlayed_def)

lemma ack_completions: "completions ((t, DeploymentLog m l info) # evs) = completions evs"
  by (simp add: completions_def)

text \<open>
  Claim C6. For a draw in the range of \<^verbatim>\<open>Math.random()\<close>: a request with
  \<open>forceFailure = false\<close> plays the success script, which has 9 lines, and ends with
  exactly one completion event, with \<open>success = true\<close>; a request with
  \<open>forceFailure = true\<close> plays one of the three failure scripts, whose lengths are 4, 8
  and 11, and ends with exactly one completion event, with \<open>success = false\<close>.
\<close>

theorem narrator_outcome:
  assumes "0 \<le> r" and "r < 1"
  shows "scriptPlayed (onDeploymentStart (Some False) r) = successSteps
    \<and> length successSteps = 9
    \<and> completions (onDeploymentStart (Some False) r) = [DeploymentComplete True (Some (9, 7700))]
    \<and> scriptPlayed (onDeploymentStart (Some True) r) \<in> set (map steps failureScenarios)
    \<and> map (\<lambda>sc. length (steps sc)) failureScenarios = [4, 8, 11]
    \<and> (\<exists>info. completions (onDeploymentStart (Some True) r) = [DeploymentComplete False info])"
proof -
  have len: "length successSteps = 9" by (simp add: successSteps_def)
  have n3: "length failureScenarios = 3" by (simp add: failureScenarios_def)
  have lens: "map (\<lambda>sc. length (steps sc)) failureScenarios = [4, 8, 11]"
    by (simp add: failureScenarios_def)
  have ok: "onDeploymentStart (Some False) r =
      (0, DeploymentLog ''Deployment request received! Starting pipeline...'' Info None)
        # playScript successSteps True"
    by (simp add: onDeploymentStart_def simulateDeployment_def)
  have lo: "0 \<le> \<lfloor>r * 3\<rfloor>" using assms(1) by simp
  have hi: "nat \<lfloor>r * 3\<rfloor> < 3" using assms by (simp add: floor_less_iff nat_less_iff)
  have bad: "onDeploymentStart (Some True) r =
      (0, DeploymentLog ''Deployment request received! Starting pipeline...'' Info None)
        # playScript (steps (failureScenarios ! nat \<lfloor>r * 3\<rfloor>)) False"
    using lo hi by (simp add: onDeploymentStart_def simulateDeployment_def n3 Let_def)
  have mem: "steps (failureScenarios ! nat \<lfloor>r * 3\<rfloor>) \<in> set (map steps failureScenarios)"
    using hi n3 by simp
  show ?thesis
    using mem by (simp add: ok bad ack_script ack_completions playScript_script playScript_completions
        len lens)
qed

theorem narrator_outcome_witness:
  "(0::real) \<le> 1/2 \<and> (1/2::real) < 1
   \<and> scriptPlayed (onDeploymentStart (Some True) (1/2)) \<in> set (map steps failureScenarios)
   \<and> completions (onDeploymentStart (Some False) (1/2)) = [DeploymentComplete True (Some (9, 7700))]
   \<and> (\<exists>info. completions (onDeploymentStart (Some True) (1/2)) = [DeploymentComplete False info])"
proof -
  have a: "(0::real) \<le> 1/2" and b: "(1/2::real) < 1" by simp_all
  from narrator_outcome[OF a b] a b show ?thesis by blast
qed

section \<open>Attack launch and attack timers\<close>

text \<open>
  Claim C2, at its own scenario (aggression 5, three slots filled, a roll of 0.05, which is
  below 0.10). The two-target test of \<^verbatim>\<open>performCatSabotage\<close> comes first and already
  holds, so the target count is 2, two warnings are staggered, the multiple-targets line
  is logged and the sabotages counter grows by 2. No input at all gives the count 3.
\<close>

theorem rampage_roll_targets_two:
  "componentsToSabotage 5 (5/100) 3 = 2
   \<and> (\<forall>a x n. componentsToSabotage a x n \<noteq> 3)
   \<and> (\<exists>s'. performCatSabotage 5 [Build, Test, Deploy] (5/100) y [Deploy, Build, Test] s = Some s'
        \<and> sabotages (gameStats s') = sabotages (gameStats s) + 2
        \<and> map callback (timeouts s') = map callback (timeouts s) @ [WarnStart Deploy, WarnStart Build, CatIdle]
        \<and> logs s' = logs s @ [LogMultipleTargets])"
  by (simp add: componentsToSabotage_def performCatSabotage_def sabotageTargets_def Let_def basic_defs)

text \<open>
  Claim C3, at the first drop of a game. The commit that follows the drop runs both
  attack-scheduling effects on a render whose \<^verbatim>\<open>sabotageTimeoutId\<close> is null: each sets
  a timeout, nothing is cleared, and two attack timers (handles 1 and 2) are pending at
  once; the state keeps only the second handle. \<^verbatim>\<open>resetComponents\<close> forgets the handle
  and leaves every pending attack timer in place.
\<close>

theorem first_drop_sets_two_attack_timers:
  "attackTimers mounted = []
   \<and> map tid (attackTimers (commitEffects r1 r2 (handleDrop Build Build mounted))) = [1, 2]
   \<and> map delay (attackTimers (commitEffects 0 0 (handleDrop Build Build mounted))) = [30000, 30000]
   \<and> sabotageTimeoutId (commitEffects r1 r2 (handleDrop Build Build mounted)) = Some 2
   \<and> attackTimers (resetComponents s) = attackTimers s
   \<and> sabotageTimeoutId (resetComponents s) = None"
  by (simp add: eval_defs attackTimers_def)

section \<open>Slots during a live session\<close>

text \<open>
  Claim C1, as stated, fails: with a warning pending when the deployment is requested, the
  grace-period resolution knocks the build slot off while the session is live, the player
  can then fill it again, and the Reset button empties all slots, each time with
  \<^verbatim>\<open>isDeploymentInProgress\<close> still true.
\<close>

theorem live_session_slot_flips:
  "isDeploymentInProgress (run warnedLiveSession mounted)
   \<and> placed (build (componentStates (run warnedLiveSession mounted)))
   \<and> isDeploymentInProgress (run (warnedLiveSession @ [Fire 7 drawsOne]) mounted)
   \<and> \<not> placed (build (componentStates (run (warnedLiveSession @ [Fire 7 drawsOne]) mounted)))
   \<and> isDeploymentInProgress (run (warnedLiveSession @ [Fire 7 drawsOne, Drop Build Build]) mounted)
   \<and> placed (build (componentStates
         (run (warnedLiveSession @ [Fire 7 drawsOne, Drop Build Build]) mounted)))
   \<and> isDeploymentInProgress (run (warnedLiveSession @ [ClickReset]) mounted)
   \<and> componentStates (run (warnedLiveSession @ [ClickReset]) mounted) = noComponents"
  by (simp add: warnedLiveSession_def fillAll_def drawsOne_def eval_defs)

text \<open>
  Claim C1, amended. While a session is live, an event changes the slot map only if it is
  a matching drop into an unfilled slot, a reset (the Reset button or the delayed reset
  after a completion), or the grace-period resolution of a slot that is still pending and
  filled. Every other event leaves all slots as they are.
\<close>

theorem live_session_slot_changes:
  assumes "isDeploymentInProgress s"
    and "componentStates (dispatch e s) \<noteq> componentStates s"
  shows "(\<exists>c. e = Drop c c \<and> \<not> placed (getComponent (componentStates s) c))
     \<or> e = ClickReset
     \<or> firedCallback e s = Some ResetAfterSuccess
     \<or> firedCallback e s = Some ResetAfterFailure
     \<or> (\<exists>c. firedCallback e s = Some (ResolveWarning c) \<and> c \<in> pendingAttacks s
            \<and> placed (getComponent (componentStates s) c))"
  using dispatch_slots[OF assms(2)] by blast

theorem live_session_slot_changes_witness:
  "isDeploymentInProgress (run warnedLiveSession mounted)
   \<and> componentStates (dispatch ClickReset (run warnedLiveSession mounted))
       \<noteq> componentStates (run warnedLiveSession mounted)
   \<and> ((\<exists>c. ClickReset = Drop c c
          \<and> \<not> placed (getComponent (componentStates (run warnedLiveSession mounted)) c))
     \<or> ClickReset = ClickReset
     \<or> firedCallback ClickReset (run warnedLiveSession mounted) = Some ResetAfterSuccess
     \<or> firedCallback ClickReset (run warnedLiveSession mounted) = Some ResetAfterFailure
     \<or> (\<exists>c. firedCallback ClickReset (run warnedLiveSession mounted) = Some (ResolveWarning c)
            \<and> c \<in> pendingAttacks (run warnedLiveSession mounted)
            \<and> placed (getComponent (componentStates (run warnedLiveSession mounted)) c)))"
proof -
  have live: "isDeploymentInProgress (run warnedLiveSession mounted)"
    by (simp add: warnedLiveSession_def fillAll_def drawsOne_def eval_defs)
  have filled: "componentStates (run warnedLiveSession mounted) =
      \<lparr>build = \<lparr>placed = True\<rparr>, test = \<lparr>placed = True\<rparr>, deploy = \<lparr>placed = True\<rparr>\<rparr>"
    by (simp add: warnedLiveSession_def fillAll_def drawsOne_def eval_defs)
  have changed: "componentStates (dispatch ClickReset (run warnedLiveSession mounted))
       \<noteq> componentStates (run warnedLiveSession mounted)"
    by (simp add: filled resetComponents_def addLog_def noComponents_def)
  from live_session_slot_changes[OF live changed] live changed show ?thesis by blast
qed

section \<open>Cancelled attacks\<close>

text \<open>
  Claim C9, at a run of the second game. Attack timers 1 and 7 are both pending once the
  build slot is filled again. Timer 1 fires and warns the slot; the emergency fix cancels
  that attack (pending and shaking sets empty, 25 points paid); timer 7 fires inside the
  grace period and warns the same slot again; then the resolution of the first, cancelled
  attack (timeout 11) finds the slot in the pending set and knocks it off.
\<close>

theorem cancelled_attack_still_knocks_off:
  "map (\<lambda>t. (tid t, delay t)) (attackTimers (run secondGame mounted))
       = [(1, 39500), (6, 35000), (7, 30000), (8, 35000)]
   \<and> pendingAttacks (run firstWarning mounted) = {Build}
   \<and> firedCallback (Fire 11 drawsOne) (run firstWarning mounted) = Some (ResolveWarning Build)
   \<and> score (gameStats (run firstWarning mounted)) = 100
   \<and> pendingAttacks (run (firstWarning @ [ClickEmergencyFix]) mounted) = {}
   \<and> shakingComponents (run (firstWarning @ [ClickEmergencyFix]) mounted) = {}
   \<and> score (gameStats (run (firstWarning @ [ClickEmergencyFix]) mounted)) = 75
   \<and> firedCallback (Fire 11 drawsOne)
        (run (firstWarning @ [ClickEmergencyFix] @ secondWarning) mounted)
        = Some (ResolveWarning Build)
   \<and> placed (build (componentStates
        (run (firstWarning @ [ClickEmergencyFix] @ secondWarning) mounted)))
   \<and> \<not> placed (build (componentStates
        (run (firstWarning @ [ClickEmergencyFix] @ secondWarning @ [Fire 11 drawsOne]) mounted)))"
  by (simp add: firstWarning_def secondWarning_def secondGame_def drawsOne_def
      eval_defs firedCallback_def attackTimers_def)

text \<open>
  What does hold: after an accepted emergency fix, and as long as no new warning starts
  for the slot, the resolution of a cancelled attack leaves every slot as it is and only
  removes the shaking mark.
\<close>

lemma cancelled_slot_without_new_warning:
  assumes "shakingComponents s \<noteq> {}"
    and "int (card (shakingComponents s)) * 25 \<le> score (gameStats s)"
    and "noNewWarning c es (emergencyFix s s)"
    and "firedCallback e (run es (emergencyFix s s)) = Some (ResolveWarning c)"
  shows "componentStates (dispatch e (run es (emergencyFix s s))) = componentStates (run es (emergencyFix s s))
    \<and> shakingComponents (dispatch e (run es (emergencyFix s s)))
        = shakingComponents (run es (emergencyFix s s)) - {c}"
proof -
  let ?t = "run es (emergencyFix s s)"
  have "card (shakingComponents s) \<noteq> 0"
    using assms(1) finite_components by simp
  with assms(2) have "pendingAttacks (emergencyFix s s) = {}"
    by (simp add: emergencyFix_def Let_def basic_defs)
  then have notin: "c \<notin> pendingAttacks ?t"
    using noNewWarning_pending[OF assms(3)] by simp
  from assms(4) obtain i d t where e: "e = Fire i d"
    and found: "find (\<lambda>t. tid t = i) (timeouts ?t) = Some t"
    and cb: "callback t = ResolveWarning c"
    by (cases e) (auto simp: firedCallback_def)
  have "dispatch e ?t = resolveWarning c (clearTimeout i ?t)"
    by (simp add: e fireTimeout_def found cb)
  with notin show ?thesis
    by (simp add: resolveWarning_def clearTimeout_def Let_def)
qed

section \<open>Shaking and pending sets out of step\<close>

text \<open>
  Claim C10. A drop of a component on its own slot removes the slot from the shaking set
  and leaves the pending set as it is; a state with an empty shaking set and a pending
  attack is reachable; and whenever the shaking set of the handler's render is empty the
  emergency fix is rejected (only the rejection is logged), pending attacks or not.
\<close>

theorem redrop_desynchronises_sets:
  "shakingComponents (handleDrop c c s) = shakingComponents s - {c}
   \<and> pendingAttacks (handleDrop c c s) = pendingAttacks s
   \<and> (\<exists>t. reachable t \<and> shakingComponents t = {} \<and> pendingAttacks t \<noteq> {})
   \<and> (shakingComponents rendered = {}
        \<longrightarrow> emergencyFix rendered s = s\<lparr>logs := logs s @ [LogNoFixNeeded]\<rparr>)"
proof -
  have drop: "shakingComponents (handleDrop c c s) = shakingComponents s - {c}
      \<and> pendingAttacks (handleDrop c c s) = pendingAttacks s"
    by (simp add: handleDrop_def Let_def basic_defs)
  have r: "reachable (run redropWhileWarned mounted)"
    by (rule reachable_run[OF reachable_mounted])
  have v: "shakingComponents (run redropWhileWarned mounted) = {}
      \<and> pendingAttacks (run redropWhileWarned mounted) = {Build}"
    by (simp add: redropWhileWarned_def drawsTwo_def eval_defs)
  have ex: "\<exists>t. reachable t \<and> shakingComponents t = {} \<and> pendingAttacks t \<noteq> {}"
    using r v by (intro exI[of _ "run redropWhileWarned mounted"]) simp
  have rej: "shakingComponents rendered = {}
      \<longrightarrow> emergencyFix rendered s = s\<lparr>logs := logs s @ [LogNoFixNeeded]\<rparr>"
    by (simp add: emergencyFix_def addLog_def)
  from drop ex rej show ?thesis by blast
qed

theorem redrop_desynchronises_sets_witness:
  "reachable (run redropWhileWarned mounted)
   \<and> shakingComponents (run redropWhileWarned mounted) = {}
   \<and> pendingAttacks (run redropWhileWarned mounted) = {Build}
   \<and> emergencyFix (run redropWhileWarned mounted) (run redropWhileWarned mounted) =
       (run redropWhileWarned mounted)\<lparr>logs := logs (run redropWhileWarned mounted) @ [LogNoFixNeeded]\<rparr>"
proof -
  have r: "reachable (run redropWhileWarned mounted)"
    by (rule reachable_run[OF reachable_mounted])
  have v: "shakingComponents (run redropWhileWarned mounted) = {}"
    and w: "pendingAttacks (run redropWhileWarned mounted) = {Build}"
    by (simp_all add: redropWhileWarned_def drawsTwo_def eval_defs)
  from redrop_desynchronises_sets[where rendered = "run redropWhileWarned mounted"
      and s = "run redropWhileWarned mounted"] v
  have "emergencyFix (run redropWhileWarned mounted) (run redropWhileWarned mounted) =
       (run redropWhileWarned mounted)\<lparr>logs := logs (run redropWhileWarned mounted) @ [LogNoFixNeeded]\<rparr>"
    by blast
  with r v w show ?thesis by blast
qed

end
